theory Spec2Isabelle
  imports Main "HOL-Library.AList"
begin

section \<open>Authentication and session tokens: \<^verbatim>\<open>internal/auth/security.py\<close>\<close>

text \<open>
  The module is glue between three libraries: passlib (password hashing), PyJWT (signed
  tokens) and the Prisma client (the record store). Each library call is modelled by a
  small function of its own, so that the module's functions read line by line like the
  Python. Exceptions are values: every function that can raise returns \<open>exn + 'a\<close>.
  Cryptography is symbolic: a bcrypt digest is a free term over its parameters and the
  bytes bcrypt reads, an HMAC tag a free term over the key block and the message, so two
  of them are equal exactly when they were computed from the same inputs.
\<close>

subsection \<open>Exceptions\<close>

record http_exception =
  status_code :: nat
  detail :: string
  headers :: "(string \<times> string) list"

text \<open>The exceptions the libraries raise, and FastAPI's \<^verbatim>\<open>HTTPException\<close>.\<close>

datatype exn =
    HTTPException http_exception
  | PasswordSizeError
  | PasswordValueError
  | UnicodeEncodeError
  | UnknownHashError
  | MalformedHashError
  | TypeError
  | ValidationError
  | RecordNotFoundError
  | UniqueViolationError

definition HTTP_401_UNAUTHORIZED :: nat where
  "HTTP_401_UNAUTHORIZED = 401"

definition CredentialException :: exn where
  "CredentialException = HTTPException
     \<lparr>status_code = HTTP_401_UNAUTHORIZED,
      detail = ''Credentials are not valid'',
      headers = [(''WWW-Authenticate'', ''Bearer'')]\<rparr>"

definition TokenExpiredException :: exn where
  "TokenExpiredException = HTTPException
     \<lparr>status_code = HTTP_401_UNAUTHORIZED,
      detail = ''Token has expired'',
      headers = [(''WWW-Authenticate'', ''Bearer'')]\<rparr>"

subsection \<open>passlib: \<^verbatim>\<open>CryptContext(schemes=["bcrypt"], deprecated="auto")\<close>\<close>

text \<open>
  A password is a Python \<^verbatim>\<open>str\<close>: the list of its code points. The bcrypt handler
  works on the UTF-8 encoding of the password, which Python refuses to build for a
  lone surrogate.
\<close>

type_synonym pystr = "nat list"

definition utf8_char :: "nat \<Rightarrow> nat list" where
  "utf8_char c =
     (if c < 0x80 then [c]
      else if c < 0x800 then [0xC0 + c div 0x40, 0x80 + c mod 0x40]
      else if c < 0x10000 then
        [0xE0 + c div 0x1000, 0x80 + c div 0x40 mod 0x40, 0x80 + c mod 0x40]
      else
        [0xF0 + c div 0x40000, 0x80 + c div 0x1000 mod 0x40, 0x80 + c div 0x40 mod 0x40,
         0x80 + c mod 0x40])"

definition utf8 :: "pystr \<Rightarrow> nat list" where
  "utf8 s = concat (map utf8_char s)"

definition is_surrogate :: "nat \<Rightarrow> bool" where
  "is_surrogate c = (0xD800 \<le> c \<and> c < 0xE000)"

definition encode_utf8 :: "pystr \<Rightarrow> exn + nat list" where
  "encode_utf8 s = (if list_ex is_surrogate s then Inl UnicodeEncodeError else Inr (utf8 s))"

text \<open>
  A stored hash is a string in modular crypt format, \<^verbatim>\<open>$2b$12$<salt><digest>\<close>; it is
  seen here through passlib's parser: the four fields of a bcrypt hash, or a string
  that starts like a bcrypt hash and does not parse as one, or a string that passlib
  does not identify at all. bcrypt reads the first 72 bytes of the password.
\<close>

datatype digest = Bcrypt_digest string nat string "nat list"

datatype hash_string =
    Bcrypt_hash string nat string digest
  | Malformed string
  | Unidentified string

definition bcrypt :: "string \<Rightarrow> nat \<Rightarrow> string \<Rightarrow> nat list \<Rightarrow> digest" where
  "bcrypt variant rounds salt secret = Bcrypt_digest variant rounds salt (take 72 secret)"

definition MAX_PASSWORD_SIZE :: nat where
  "MAX_PASSWORD_SIZE = 4096"

text \<open>
  passlib's size limit (\<^verbatim>\<open>validate_secret\<close>). It is applied to the password as given,
  where it counts characters, and again to the encoded password, where it counts bytes.
\<close>

definition validate_secret :: "nat list \<Rightarrow> exn option" where
  "validate_secret secret =
     (if length secret > MAX_PASSWORD_SIZE then Some PasswordSizeError else None)"

text \<open>
  The digest of a password under the parameters of a hash: the bcrypt handler encodes
  the password, checks the size of the bytes, and refuses a NUL byte before it computes
  the digest.
\<close>

definition calc_checksum :: "string \<Rightarrow> nat \<Rightarrow> string \<Rightarrow> pystr \<Rightarrow> exn + digest" where
  "calc_checksum variant rounds salt secret =
     (case encode_utf8 secret of
        Inl e \<Rightarrow> Inl e
      | Inr bytes \<Rightarrow>
          (case validate_secret bytes of
             Some e \<Rightarrow> Inl e
           | None \<Rightarrow>
               (if 0 \<in> set bytes then Inl PasswordValueError
                else Inr (bcrypt variant rounds salt bytes))))"

text \<open>
  \<^verbatim>\<open>PWD.hash(secret)\<close>. The salt is drawn at random inside passlib; here it is an
  argument. Defaults of the bcrypt handler: variant \<^verbatim>\<open>2b\<close>, 12 rounds.
\<close>

definition PWD_hash :: "string \<Rightarrow> pystr \<Rightarrow> exn + hash_string" where
  "PWD_hash salt secret =
     (case validate_secret secret of
        Some e \<Rightarrow> Inl e
      | None \<Rightarrow>
          (case calc_checksum ''2b'' 12 salt secret of
             Inl e \<Rightarrow> Inl e
           | Inr chk \<Rightarrow> Inr (Bcrypt_hash ''2b'' 12 salt chk)))"

text \<open>
  \<^verbatim>\<open>PWD.verify(secret, hash)\<close>: the context identifies the hash first and raises on a
  string it does not know; the handler then checks the number of characters of the
  secret, parses the hash, recomputes the digest with the parameters the hash carries,
  and compares.
\<close>

fun PWD_verify :: "pystr \<Rightarrow> hash_string \<Rightarrow> exn + bool" where
  "PWD_verify secret (Unidentified s) = Inl UnknownHashError"
| "PWD_verify secret (Malformed s) =
     (case validate_secret secret of
        Some e \<Rightarrow> Inl e
      | None \<Rightarrow> Inl MalformedHashError)"
| "PWD_verify secret (Bcrypt_hash variant rounds salt chk) =
     (case validate_secret secret of
        Some e \<Rightarrow> Inl e
      | None \<Rightarrow>
          (case calc_checksum variant rounds salt secret of
             Inl e \<Rightarrow> Inl e
           | Inr d \<Rightarrow> Inr (d = chk)))"

subsection \<open>PyJWT: \<^verbatim>\<open>jwt.encode\<close> and \<^verbatim>\<open>jwt.decode\<close>\<close>

text \<open>
  Time is the number of microseconds since the epoch, the resolution of Python's
  \<^verbatim>\<open>datetime\<close>. \<^verbatim>\<open>timegm(d.utctimetuple())\<close> drops the microseconds.
\<close>

type_synonym datetime = int

definition timedelta_minutes :: "int \<Rightarrow> int" where
  "timedelta_minutes m = m * 60000000"

definition timegm :: "datetime \<Rightarrow> int" where
  "timegm d = d div 1000000"

text \<open>
  Values of the dictionary handed to \<^verbatim>\<open>jwt.encode\<close>, and of the JSON payload. A
  dictionary is the list of its items in insertion order; \<open>AList.update\<close> is Python's
  \<^verbatim>\<open>dict.update\<close> with one item, and \<open>map_of\<close> is \<^verbatim>\<open>dict.get\<close>.
\<close>

datatype pyval = PStr string | PDatetime datetime

datatype json = JStr string | JInt int

type_synonym claims = "(string \<times> json) list"

datatype hmac_alg = HS256 | HS384 | HS512

fun alg_name :: "hmac_alg \<Rightarrow> string" where
  "alg_name HS256 = ''HS256''"
| "alg_name HS384 = ''HS384''"
| "alg_name HS512 = ''HS512''"

text \<open>
  A token string in compact serialisation has three segments: header, payload and
  signature. The header is represented by its \<^verbatim>\<open>alg\<close> field; the payload segment is the
  JSON object it holds, or bytes that are no JSON object, or text that is not even
  base64; the signature is the HMAC of header and payload segment under a key. A string
  with another shape is \<open>Garbage\<close>.
\<close>

datatype segment = Json claims | NotJson string | NotBase64 string

text \<open>
  HMAC does not use the key as given: a key no longer than the block of the hash
  function is padded with zero bytes to the block size, a longer key is replaced by its
  hash. Two keys with the same block give the same tags. The tag is a free term over
  the block and the message; the hash of a long key is a free term as well.
\<close>

fun block_size :: "hmac_alg \<Rightarrow> nat" where
  "block_size HS256 = 64"
| "block_size HS384 = 128"
| "block_size HS512 = 128"

datatype key_block = Block string | Hashed string

definition hmac_key :: "hmac_alg \<Rightarrow> string \<Rightarrow> key_block" where
  "hmac_key alg key =
     (if length key \<le> block_size alg
      then Block (key @ replicate (block_size alg - length key) (CHR 0x00))
      else Hashed key)"

datatype tag = HMAC hmac_alg key_block string segment

definition hmac :: "hmac_alg \<Rightarrow> string \<Rightarrow> string \<Rightarrow> segment \<Rightarrow> tag" where
  "hmac alg key hdr seg = HMAC alg (hmac_key alg key) hdr seg"

datatype token = Compact string segment tag | Garbage string

datatype jwt_error =
    DecodeError
  | InvalidAlgorithmError
  | InvalidSignatureError
  | ExpiredSignatureError

text \<open>
  \<^verbatim>\<open>jwt.encode\<close> turns a \<^verbatim>\<open>datetime\<close> under \<^verbatim>\<open>exp\<close>, \<^verbatim>\<open>iat\<close> or \<^verbatim>\<open>nbf\<close> into whole seconds;
  a \<^verbatim>\<open>datetime\<close> anywhere else is not JSON serialisable.
\<close>

fun json_of :: "string \<Rightarrow> pyval \<Rightarrow> exn + json" where
  "json_of k (PStr s) = Inr (JStr s)"
| "json_of k (PDatetime d) =
     (if k \<in> set [''exp'', ''iat'', ''nbf''] then Inr (JInt (timegm d)) else Inl TypeError)"

fun encode_payload :: "(string \<times> pyval) list \<Rightarrow> exn + claims" where
  "encode_payload [] = Inr []"
| "encode_payload ((k, v) # kvs) =
     (case json_of k v of
        Inl e \<Rightarrow> Inl e
      | Inr j \<Rightarrow>
          (case encode_payload kvs of
             Inl e \<Rightarrow> Inl e
           | Inr js \<Rightarrow> Inr ((k, j) # js)))"

definition jwt_encode :: "(string \<times> pyval) list \<Rightarrow> string \<Rightarrow> hmac_alg \<Rightarrow> exn + token" where
  "jwt_encode payload key algorithm =
     (case encode_payload payload of
        Inl e \<Rightarrow> Inl e
      | Inr cl \<Rightarrow>
          Inr (Compact (alg_name algorithm) (Json cl)
                 (hmac algorithm key (alg_name algorithm) (Json cl))))"

text \<open>
  Validation of the claims by \<^verbatim>\<open>jwt.decode\<close> with its default options: a token whose
  \<^verbatim>\<open>exp\<close> is at or before the current time has expired (\<^verbatim>\<open>exp <= now\<close>, PyJWT 2.6 and
  later; no leeway). Of the registered claims only \<^verbatim>\<open>exp\<close> is modelled: the module never
  writes \<^verbatim>\<open>nbf\<close>, \<^verbatim>\<open>iat\<close>, \<^verbatim>\<open>aud\<close> or \<^verbatim>\<open>iss\<close>. A string under \<^verbatim>\<open>exp\<close> is taken as one that
  \<^verbatim>\<open>int()\<close> cannot read.
\<close>

definition validate_claims :: "datetime \<Rightarrow> claims \<Rightarrow> jwt_error + claims" where
  "validate_claims now cl =
     (case map_of cl ''exp'' of
        None \<Rightarrow> Inr cl
      | Some (JStr s) \<Rightarrow> Inl DecodeError
      | Some (JInt e) \<Rightarrow>
          (if e * 1000000 \<le> now then Inl ExpiredSignatureError else Inr cl))"

text \<open>
  \<^verbatim>\<open>jwt.decode(token, key, algorithms)\<close> at time \<open>now\<close>: the segments are split and
  base64-decoded, the header's algorithm must be one of the accepted ones, the
  signature is verified over header and payload segment, and only then is the payload
  parsed as JSON and validated.
\<close>

definition jwt_decode ::
  "datetime \<Rightarrow> token \<Rightarrow> string \<Rightarrow> hmac_alg list \<Rightarrow> jwt_error + claims" where
  "jwt_decode now tok key algorithms =
     (case tok of
        Garbage s \<Rightarrow> Inl DecodeError
      | Compact hdr (NotBase64 s) sig \<Rightarrow> Inl DecodeError
      | Compact hdr seg sig \<Rightarrow>
          (case find (\<lambda>a. alg_name a = hdr) algorithms of
             None \<Rightarrow> Inl InvalidAlgorithmError
           | Some a \<Rightarrow>
               (if sig \<noteq> hmac a key hdr seg then Inl InvalidSignatureError
                else (case seg of
                        Json cl \<Rightarrow> validate_claims now cl
                      | _ \<Rightarrow> Inl DecodeError))))"

subsection \<open>The record store (Prisma client)\<close>

record jwt_blacklist_row =
  token :: token
  userId :: int

record user_row =
  ident :: int
  email :: string
  password :: hash_string

text \<open>
  A \<^verbatim>\<open>UserRecord\<close> as the client returns it: the row, and the related blacklist rows when
  the query asked for them (\<^verbatim>\<open>include={"jwt_blacklist": True}\<close>), \<open>None\<close> otherwise.
\<close>

record user_record = user_row +
  jwt_blacklist :: "jwt_blacklist_row list option"

record database =
  User :: "user_row list"
  JWTBlacklist :: "jwt_blacklist_row list"

definition load :: "user_row \<Rightarrow> jwt_blacklist_row list option \<Rightarrow> user_record" where
  "load r bl =
     \<lparr>ident = ident r, email = email r, password = password r, jwt_blacklist = bl\<rparr>"

text \<open>\<^verbatim>\<open>User.find_first(where={"email": e})\<close>, with or without the relation.\<close>

definition User_find_first :: "database \<Rightarrow> string \<Rightarrow> bool \<Rightarrow> user_record option" where
  "User_find_first db e include_blacklist =
     (case find (\<lambda>r. email r = e) (User db) of
        None \<Rightarrow> None
      | Some r \<Rightarrow>
          Some (load r
            (if include_blacklist
             then Some (filter (\<lambda>b. userId b = ident r) (JWTBlacklist db))
             else None)))"

text \<open>
  Modelled from the spec: the Prisma schema (\<^verbatim>\<open>internal.db\<close>) is not among the sources.
  By sections 3 and 4.3 of the specification the referenced user must exist at
  insertion time, so \<^verbatim>\<open>JWTBlacklist.create\<close> with
  \<^verbatim>\<open>{"token": t, "user": {"connect": {"id": i}}}\<close> raises when no user has the id. What
  happens to a token that is already stored is left open by the specification (section
  4.5) and is decided by the schema; whether the schema declares the token unique is the
  parameter \<open>token_unique\<close>. Prisma's \<^verbatim>\<open>create\<close> inserts the row, or raises the
  unique-constraint error and writes nothing.
\<close>

record schema =
  token_unique :: bool

definition JWTBlacklist_create :: "schema \<Rightarrow> database \<Rightarrow> token \<Rightarrow> int \<Rightarrow> exn + database" where
  "JWTBlacklist_create sch db tok uid =
     (if find (\<lambda>r. ident r = uid) (User db) = None then Inl RecordNotFoundError
      else if token_unique sch \<and> find (\<lambda>b. token b = tok) (JWTBlacklist db) \<noteq> None
        then Inl UniqueViolationError
      else Inr (db\<lparr>JWTBlacklist := JWTBlacklist db @ [\<lparr>token = tok, userId = uid\<rparr>]\<rparr>))"

subsection \<open>Settings and schemas\<close>

text \<open>
  The constants of \<^verbatim>\<open>internal.settings\<close> are parameters. The algorithm is one of PyJWT's
  HMAC algorithms: the key is one shared secret, used to sign and to verify.
\<close>

record settings =
  SECRET_KEY :: string
  ALGORITHM :: hmac_alg
  ACCESS_TOKEN_EXPIRE_MINUTES :: int

text \<open>
  Modelled from the spec: \<^verbatim>\<open>internal.auth.schemas\<close> is not among the sources. The subject
  of a token is an email string (section 3), so \<^verbatim>\<open>TokenData(email=...)\<close> keeps a string
  and refuses any other value with pydantic's validation error.
\<close>

fun TokenData :: "json \<Rightarrow> exn + string" where
  "TokenData (JStr e) = Inr e"
| "TokenData (JInt n) = Inl ValidationError"

subsection \<open>The functions of the module\<close>

definition generate_password_hash :: "string \<Rightarrow> pystr \<Rightarrow> exn + hash_string" where
  "generate_password_hash salt pw = PWD_hash salt pw"

definition verify_password :: "pystr \<Rightarrow> hash_string \<Rightarrow> exn + bool" where
  "verify_password plain_password hashed_password = PWD_verify plain_password hashed_password"

text \<open>The result \<^verbatim>\<open>False\<close> of \<^verbatim>\<open>authenticate_user\<close> is \<open>None\<close>.\<close>

definition authenticate_user :: "database \<Rightarrow> string \<Rightarrow> pystr \<Rightarrow> exn + user_record option" where
  "authenticate_user db e pw =
     (case User_find_first db e False of
        None \<Rightarrow> Inr None
      | Some u \<Rightarrow>
          (case verify_password pw (password u) of
             Inl x \<Rightarrow> Inl x
           | Inr ok \<Rightarrow> if \<not> ok then Inr None else Inr (Some u)))"

definition create_access_token ::
  "settings \<Rightarrow> datetime \<Rightarrow> (string \<times> string) list \<Rightarrow> exn + token" where
  "create_access_token cfg now data =
     (let to_encode = map (\<lambda>(k, v). (k, PStr v)) data;
          expire = now + timedelta_minutes (ACCESS_TOKEN_EXPIRE_MINUTES cfg);
          to_encode = AList.update ''exp'' (PDatetime expire) to_encode
      in jwt_encode to_encode (SECRET_KEY cfg) (ALGORITHM cfg))"

record login_response =
  access_token :: token
  token_type :: string

definition login_for_access_token ::
  "settings \<Rightarrow> database \<Rightarrow> datetime \<Rightarrow> string \<Rightarrow> pystr \<Rightarrow> exn + login_response" where
  "login_for_access_token cfg db now e pw =
     (case authenticate_user db e pw of
        Inl x \<Rightarrow> Inl x
      | Inr None \<Rightarrow> Inl CredentialException
      | Inr (Some u) \<Rightarrow>
          (case create_access_token cfg now [(''sub'', email u)] of
             Inl x \<Rightarrow> Inl x
           | Inr t \<Rightarrow> Inr \<lparr>access_token = t, token_type = ''bearer''\<rparr>))"

text \<open>
  \<^verbatim>\<open>get_current_user\<close>. Inside the \<^verbatim>\<open>try\<close>, \<^verbatim>\<open>ExpiredSignatureError\<close> is caught first and
  every other \<^verbatim>\<open>InvalidTokenError\<close> after it; the \<^verbatim>\<open>HTTPException\<close> raised for a missing
  subject and a validation error of \<^verbatim>\<open>TokenData\<close> are neither and pass through.
  Iterating over a relation that was not loaded would be a \<^verbatim>\<open>TypeError\<close>; the query
  here loads it.
\<close>

definition get_current_user :: "settings \<Rightarrow> database \<Rightarrow> datetime \<Rightarrow> token \<Rightarrow> exn + user_record" where
  "get_current_user cfg db now tok =
     (case jwt_decode now tok (SECRET_KEY cfg) [ALGORITHM cfg] of
        Inl ExpiredSignatureError \<Rightarrow> Inl TokenExpiredException
      | Inl _ \<Rightarrow> Inl CredentialException
      | Inr payload \<Rightarrow>
          (case map_of payload ''sub'' of
             None \<Rightarrow> Inl CredentialException
           | Some v \<Rightarrow>
               (case TokenData v of
                  Inl x \<Rightarrow> Inl x
                | Inr token_data \<Rightarrow>
                    (case User_find_first db token_data True of
                       None \<Rightarrow> Inl CredentialException
                     | Some u \<Rightarrow>
                         (case jwt_blacklist u of
                            None \<Rightarrow> Inl TypeError
                          | Some bl \<Rightarrow>
                              (if filter (\<lambda>x. token x = tok) bl \<noteq> []
                               then Inl TokenExpiredException
                               else Inr u))))))"

definition add_access_token_blacklist ::
  "schema \<Rightarrow> database \<Rightarrow> token \<Rightarrow> user_record \<Rightarrow> exn + database" where
  "add_access_token_blacklist sch db tok u = JWTBlacklist_create sch db tok (ident u)"

subsection \<open>Notions used in the statements\<close>

text \<open>
  The value \<^verbatim>\<open>create_access_token\<close> writes under \<^verbatim>\<open>exp\<close> at time \<open>t0\<close>, the payload it
  builds from \<open>data\<close>, and the token that carries a payload segment under the
  configured key and algorithm.
\<close>

definition expires_at :: "settings \<Rightarrow> datetime \<Rightarrow> int" where
  "expires_at cfg t0 = timegm (t0 + timedelta_minutes (ACCESS_TOKEN_EXPIRE_MINUTES cfg))"

definition issued_claims :: "settings \<Rightarrow> datetime \<Rightarrow> (string \<times> string) list \<Rightarrow> claims" where
  "issued_claims cfg t0 data =
     AList.update ''exp'' (JInt (expires_at cfg t0)) (map (\<lambda>(k, v). (k, JStr v)) data)"

definition signed :: "settings \<Rightarrow> segment \<Rightarrow> token" where
  "signed cfg seg =
     Compact (alg_name (ALGORITHM cfg)) seg
       (hmac (ALGORITHM cfg) (SECRET_KEY cfg) (alg_name (ALGORITHM cfg)) seg)"

text \<open>The names of the claims in a token's payload, read without verifying it.\<close>

definition claim_names :: "token \<Rightarrow> string list" where
  "claim_names tok = (case tok of Compact hdr (Json cl) sig \<Rightarrow> map fst cl | _ \<Rightarrow> [])"

subsection \<open>Example data\<close>

text \<open>
  Two users, \<^verbatim>\<open>a@x.com\<close> with password \<^verbatim>\<open>secret\<close> and \<^verbatim>\<open>b@x.com\<close>, a lifetime of 30
  minutes, and the token the first user is issued during the first second. The
  passwords \<^verbatim>\<open>secret\<close> and \<^verbatim>\<open>wrong\<close> as code points, and the password that is one NUL
  character.
\<close>

definition secret0 :: pystr where
  "secret0 = [115, 101, 99, 114, 101, 116]"

definition wrong0 :: pystr where
  "wrong0 = [119, 114, 111, 110, 103]"

definition nul0 :: pystr where
  "nul0 = [0]"

definition cfg0 :: settings where
  "cfg0 = \<lparr>SECRET_KEY = ''k3y'', ALGORITHM = HS256, ACCESS_TOKEN_EXPIRE_MINUTES = 30\<rparr>"

definition alice :: user_row where
  "alice = \<lparr>ident = 1, email = ''a@x.com'',
            password = Bcrypt_hash ''2b'' 12 ''salt'' (bcrypt ''2b'' 12 ''salt'' (utf8 secret0))\<rparr>"

definition bob :: user_row where
  "bob = \<lparr>ident = 2, email = ''b@x.com'',
          password = Bcrypt_hash ''2b'' 12 ''pepper'' (bcrypt ''2b'' 12 ''pepper'' (utf8 wrong0))\<rparr>"

definition db0 :: database where
  "db0 = \<lparr>User = [alice], JWTBlacklist = []\<rparr>"

definition tok0 :: token where
  "tok0 = signed cfg0 (Json [(''sub'', JStr ''a@x.com''), (''exp'', JInt 1800)])"

text \<open>The store after the token was revoked for its owner once, and twice.\<close>

definition db1 :: database where
  "db1 = \<lparr>User = [alice], JWTBlacklist = [\<lparr>token = tok0, userId = 1\<rparr>]\<rparr>"


text \<open>A store with both users, before and after the token was revoked for the other user.\<close>

definition db2 :: database where
  "db2 = \<lparr>User = [alice, bob], JWTBlacklist = []\<rparr>"

definition db3 :: database where
  "db3 = \<lparr>User = [alice, bob], JWTBlacklist = [\<lparr>token = tok0, userId = 2\<rparr>]\<rparr>"

text \<open>A schema with unique tokens and one without.\<close>

definition unique_tokens :: schema where
  "unique_tokens = \<lparr>token_unique = True\<rparr>"


text \<open>
  The token with another expiry written into its payload and the signature kept, and
  a token signed with the configured key whose payload has no subject.
\<close>

definition tok0_forged :: token where
  "tok0_forged = Compact ''HS256'' (Json [(''sub'', JStr ''a@x.com''), (''exp'', JInt 9999999999)])
     (hmac HS256 ''k3y'' ''HS256'' (Json [(''sub'', JStr ''a@x.com''), (''exp'', JInt 1800)]))"

definition tok_nosub :: token where
  "tok_nosub = signed cfg0 (Json [(''exp'', JInt 1800)])"

section \<open>Lemmas\<close>

subsection \<open>Issuing and decoding\<close>

lemma encode_payload_strs:
  "encode_payload (map (\<lambda>(k, v). (k, PStr v)) data) = Inr (map (\<lambda>(k, v). (k, JStr v)) data)"
  by (induction data) auto

lemma encode_payload_update:
  "json_of k v = Inr j \<Longrightarrow> encode_payload al = Inr cl \<Longrightarrow>
   encode_payload (AList.update k v al) = Inr (AList.update k j cl)"
proof (induction al arbitrary: cl)
  case Nil
  then show ?case by simp
next
  case (Cons p al)
  obtain k' v' where p: "p = (k', v')" by (cases p)
  from Cons.prems(2) p obtain j' cl' where
    j': "json_of k' v' = Inr j'" and cl': "encode_payload al = Inr cl'" and cl: "cl = (k', j') # cl'"
    by (auto split: sum.splits)
  show ?case
  proof (cases "k' = k")
    case True
    with p j' cl' cl Cons.prems(1) show ?thesis by simp
  next
    case False
    with p j' cl' cl Cons.IH[OF Cons.prems(1) cl'] show ?thesis by simp
  qed
qed

lemma create_access_token_eq:
  "create_access_token cfg t0 data = Inr (signed cfg (Json (issued_claims cfg t0 data)))"
proof -
  have "json_of ''exp'' (PDatetime (t0 + timedelta_minutes (ACCESS_TOKEN_EXPIRE_MINUTES cfg)))
        = Inr (JInt (expires_at cfg t0))"
    by (simp add: expires_at_def)
  from encode_payload_update[OF this encode_payload_strs]
  show ?thesis
    by (simp add: create_access_token_def jwt_encode_def issued_claims_def signed_def Let_def)
qed

lemma find_alg: "find (\<lambda>a. alg_name a = alg_name A) [A] = Some A"
  by simp

lemma jwt_decode_signed:
  "jwt_decode now (signed cfg (Json cl)) (SECRET_KEY cfg) [ALGORITHM cfg] = validate_claims now cl"
  by (simp add: jwt_decode_def signed_def)

lemma jwt_decode_tampered:
  "seg' \<noteq> seg \<Longrightarrow>
   jwt_decode now (Compact (alg_name (ALGORITHM cfg)) seg'
       (hmac (ALGORITHM cfg) (SECRET_KEY cfg) (alg_name (ALGORITHM cfg)) seg))
     (SECRET_KEY cfg) [ALGORITHM cfg] =
   (case seg' of NotBase64 s \<Rightarrow> Inl DecodeError | _ \<Rightarrow> Inl InvalidSignatureError)"
  by (cases seg') (simp_all add: jwt_decode_def hmac_def)

lemma hmac_zero_padded_key:
  "hmac HS256 (''k3y'' @ [CHR 0x00]) hdr seg = hmac HS256 ''k3y'' hdr seg"
proof -
  have "[CHR 0x00] @ replicate 60 (CHR 0x00) = replicate (1 + 60) (CHR 0x00)"
    unfolding replicate_add by simp
  then have "CHR 0x00 # replicate 60 (CHR 0x00) = replicate 61 (CHR 0x00)"
    by simp
  then show ?thesis
    by (simp add: hmac_def hmac_key_def)
qed

lemma exceptions_distinct: "CredentialException \<noteq> TokenExpiredException"
  by (simp add: CredentialException_def TokenExpiredException_def)

lemma expires_at_bounds:
  "expires_at cfg t0 * 1000000 \<le> t0 + timedelta_minutes (ACCESS_TOKEN_EXPIRE_MINUTES cfg)"
  "t0 + timedelta_minutes (ACCESS_TOKEN_EXPIRE_MINUTES cfg) < expires_at cfg t0 * 1000000 + 1000000"
  by (simp_all add: expires_at_def timegm_def)

lemma map_of_issued_exp: "map_of (issued_claims cfg t0 data) ''exp'' = Some (JInt (expires_at cfg t0))"
  by (simp add: issued_claims_def update_conv')

lemma map_of_issued_sub: "map_of (issued_claims cfg t0 [(''sub'', e)]) ''sub'' = Some (JStr e)"
  by (simp add: issued_claims_def)

lemma validate_issued:
  "validate_claims now (issued_claims cfg t0 data) =
     (if expires_at cfg t0 * 1000000 \<le> now then Inl ExpiredSignatureError
      else Inr (issued_claims cfg t0 data))"
  by (simp add: validate_claims_def map_of_issued_exp)

lemma jwt_decode_issued:
  "jwt_decode now (signed cfg (Json (issued_claims cfg t0 data))) (SECRET_KEY cfg) [ALGORITHM cfg] =
     (if expires_at cfg t0 * 1000000 \<le> now then Inl ExpiredSignatureError
      else Inr (issued_claims cfg t0 data))"
  by (simp add: jwt_decode_signed validate_issued)

lemma claim_names_signed: "claim_names (signed cfg (Json cl)) = map fst cl"
  by (simp add: claim_names_def signed_def)

lemma keys_issued: "set (map fst (issued_claims cfg t0 data)) = insert ''exp'' (fst ` set data)"
  by (simp add: issued_claims_def dom_update image_image case_prod_beta)

subsection \<open>Resolving a token\<close>

lemma jwt_decode_later:
  "jwt_decode t tok key algs = Inr payload \<Longrightarrow>
   jwt_decode t' tok key algs = Inr payload \<or> jwt_decode t' tok key algs = Inl ExpiredSignatureError"
  by (auto simp: jwt_decode_def validate_claims_def
      split: token.splits option.splits if_splits segment.splits json.splits)

lemma get_current_user_expired:
  "jwt_decode now tok (SECRET_KEY cfg) [ALGORITHM cfg] = Inl ExpiredSignatureError \<Longrightarrow>
   get_current_user cfg db now tok = Inl TokenExpiredException"
  by (simp add: get_current_user_def)

lemma get_current_user_invalid:
  "jwt_decode now tok (SECRET_KEY cfg) [ALGORITHM cfg] = Inl err \<Longrightarrow> err \<noteq> ExpiredSignatureError \<Longrightarrow>
   get_current_user cfg db now tok = Inl CredentialException"
  by (cases err) (simp_all add: get_current_user_def)

lemma get_current_user_resolved:
  "jwt_decode now tok (SECRET_KEY cfg) [ALGORITHM cfg] = Inr payload \<Longrightarrow>
   map_of payload ''sub'' = Some (JStr e) \<Longrightarrow>
   find (\<lambda>r. email r = e) (User db) = Some r \<Longrightarrow>
   get_current_user cfg db now tok =
     (if filter (\<lambda>x. token x = tok) (filter (\<lambda>b. userId b = ident r) (JWTBlacklist db)) \<noteq> []
      then Inl TokenExpiredException
      else Inr (load r (Some (filter (\<lambda>b. userId b = ident r) (JWTBlacklist db)))))"
  by (simp add: get_current_user_def User_find_first_def load_def)

lemma get_current_user_InrD:
  assumes "get_current_user cfg db now tok = Inr u"
  obtains payload e r where
    "jwt_decode now tok (SECRET_KEY cfg) [ALGORITHM cfg] = Inr payload"
    "map_of payload ''sub'' = Some (JStr e)"
    "find (\<lambda>r. email r = e) (User db) = Some r"
    "u = load r (Some (filter (\<lambda>b. userId b = ident r) (JWTBlacklist db)))"
    "filter (\<lambda>x. token x = tok) (filter (\<lambda>b. userId b = ident r) (JWTBlacklist db)) = []"
proof -
  from assms obtain payload where
    d: "jwt_decode now tok (SECRET_KEY cfg) [ALGORITHM cfg] = Inr payload"
    by (auto simp: get_current_user_def split: sum.splits jwt_error.splits)
  from assms d obtain v where v: "map_of payload ''sub'' = Some v"
    by (auto simp: get_current_user_def split: option.splits)
  from assms d v obtain e where e: "v = JStr e"
    by (cases v) (auto simp: get_current_user_def)
  from assms d v e obtain r where r: "find (\<lambda>r. email r = e) (User db) = Some r"
    by (auto simp: get_current_user_def User_find_first_def split: option.splits)
  from assms get_current_user_resolved[OF d v[unfolded e] r]
  have "u = load r (Some (filter (\<lambda>b. userId b = ident r) (JWTBlacklist db)))"
    and "filter (\<lambda>x. token x = tok) (filter (\<lambda>b. userId b = ident r) (JWTBlacklist db)) = []"
    by (auto split: if_splits)
  with d v e r that show thesis by blast
qed

lemma get_current_user_TokenExpiredD:
  assumes "get_current_user cfg db now tok = Inl TokenExpiredException"
  shows "jwt_decode now tok (SECRET_KEY cfg) [ALGORITHM cfg] = Inl ExpiredSignatureError \<or>
         filter (\<lambda>x. token x = tok) (JWTBlacklist db) \<noteq> []"
proof (cases "jwt_decode now tok (SECRET_KEY cfg) [ALGORITHM cfg]")
  case (Inl err)
  with assms get_current_user_invalid[OF Inl, of db] exceptions_distinct show ?thesis
    by (cases "err = ExpiredSignatureError") auto
next
  case (Inr payload)
  have t: "\<And>v. TokenData v \<noteq> Inl TokenExpiredException"
  proof -
    fix v show "TokenData v \<noteq> Inl TokenExpiredException"
      by (cases v) (simp_all add: TokenExpiredException_def)
  qed
  from Inr assms exceptions_distinct t show ?thesis
    by (fastforce simp: get_current_user_def User_find_first_def load_def filter_empty_conv
        split: option.splits sum.splits if_splits)
qed

lemma ident_load: "ident (load r bl) = ident r"
  by (simp add: load_def)

subsection \<open>Passwords and login\<close>

lemma length_utf8_char: "0 < length (utf8_char c)"
  by (simp add: utf8_char_def)

lemma length_utf8: "length s \<le> length (utf8 s)"
proof (induction s)
  case Nil
  then show ?case by (simp add: utf8_def)
next
  case (Cons c s)
  have "length (utf8 (c # s)) = length (utf8_char c) + length (utf8 s)"
    by (simp add: utf8_def)
  moreover have "length (c # s) = Suc (length s)"
    by simp
  ultimately show ?case
    using Cons length_utf8_char[of c] by linarith
qed

lemma zero_in_utf8_char: "0 \<in> set (utf8_char c) \<longleftrightarrow> c = 0"
  by (auto simp: utf8_char_def)

lemma zero_in_utf8: "0 \<in> set (utf8 s) \<longleftrightarrow> 0 \<in> set s"
  by (auto simp: utf8_def zero_in_utf8_char)

lemma secret_ok:
  assumes "\<not> list_ex is_surrogate p" and "length (utf8 p) \<le> 4096" and "0 \<notin> set p"
  shows "validate_secret p = None"
    and "calc_checksum variant rounds salt p = Inr (bcrypt variant rounds salt (utf8 p))"
proof -
  from assms(2) length_utf8[of p] show "validate_secret p = None"
    by (simp add: validate_secret_def MAX_PASSWORD_SIZE_def)
  from assms show "calc_checksum variant rounds salt p = Inr (bcrypt variant rounds salt (utf8 p))"
    by (simp add: calc_checksum_def encode_utf8_def validate_secret_def MAX_PASSWORD_SIZE_def
        zero_in_utf8)
qed

lemma PWD_hash_refused:
  assumes "\<not> (\<not> list_ex is_surrogate p \<and> length (utf8 p) \<le> 4096 \<and> 0 \<notin> set p)"
  shows "\<exists>e. PWD_hash salt p = Inl e"
  using assms
  by (auto simp: PWD_hash_def calc_checksum_def encode_utf8_def validate_secret_def
      MAX_PASSWORD_SIZE_def zero_in_utf8 split: option.splits sum.splits)

lemma secret0_ok: "\<not> list_ex is_surrogate secret0" "length (utf8 secret0) \<le> 4096" "0 \<notin> set secret0"
  by (simp_all add: secret0_def is_surrogate_def utf8_def utf8_char_def)

lemma wrong0_ok: "\<not> list_ex is_surrogate wrong0" "length (utf8 wrong0) \<le> 4096" "0 \<notin> set wrong0"
  by (simp_all add: wrong0_def is_surrogate_def utf8_def utf8_char_def)

lemma authenticate_user_None:
  "find (\<lambda>r. email r = e) (User db) = None \<Longrightarrow> authenticate_user db e pw = Inr None"
  by (simp add: authenticate_user_def User_find_first_def)

lemma authenticate_user_Some:
  "find (\<lambda>r. email r = e) (User db) = Some r \<Longrightarrow>
   authenticate_user db e pw =
     (case verify_password pw (password r) of
        Inl x \<Rightarrow> Inl x
      | Inr ok \<Rightarrow> if ok then Inr (Some (load r None)) else Inr None)"
  by (simp add: authenticate_user_def User_find_first_def load_def split: sum.splits)

lemma login_failure_when_verify_returns_false:
  assumes "find (\<lambda>r. email r = e) (User db) = None \<or>
           (\<exists>r. find (\<lambda>r. email r = e) (User db) = Some r \<and> verify_password pw (password r) = Inr False)"
  shows "login_for_access_token cfg db now e pw = Inl CredentialException"
  using assms
  by (auto simp: login_for_access_token_def authenticate_user_None authenticate_user_Some)

subsection \<open>The example data\<close>

lemma validate_claims0:
  "validate_claims now [(''sub'', JStr ''a@x.com''), (''exp'', JInt 1800)] =
    (if 1800000000 \<le> now then Inl ExpiredSignatureError
     else Inr [(''sub'', JStr ''a@x.com''), (''exp'', JInt 1800)])"
  by (simp add: validate_claims_def)

lemma jwt_decode_tok0:
  "jwt_decode now tok0 (SECRET_KEY cfg0) [ALGORITHM cfg0] =
    (if 1800000000 \<le> now then Inl ExpiredSignatureError
     else Inr [(''sub'', JStr ''a@x.com''), (''exp'', JInt 1800)])"
  by (simp add: tok0_def jwt_decode_signed validate_claims0)

lemma get_current_user_db0_at:
  "get_current_user cfg0 db0 now tok0 =
     (if 1800000000 \<le> now then Inl TokenExpiredException else Inr (load alice (Some [])))"
  by (simp add: get_current_user_def jwt_decode_tok0 User_find_first_def db0_def alice_def load_def)

lemma get_current_user_db0:
  "get_current_user cfg0 db0 1000000 tok0 = Inr (load alice (Some []))"
  by (simp add: get_current_user_def jwt_decode_tok0 User_find_first_def db0_def alice_def load_def)

lemma add_db0: "add_access_token_blacklist sch db0 tok0 (load alice (Some [])) = Inr db1"
  by (simp add: add_access_token_blacklist_def JWTBlacklist_create_def db0_def db1_def alice_def load_def)

lemma issued0:
  "issued_claims cfg0 500000 [(''sub'', ''a@x.com'')] = [(''sub'', JStr ''a@x.com''), (''exp'', JInt 1800)]"
  by (simp add: issued_claims_def expires_at_def timegm_def timedelta_minutes_def cfg0_def)

lemma issued0': 
  "issued_claims cfg0 0 [(''sub'', ''a@x.com'')] = [(''sub'', JStr ''a@x.com''), (''exp'', JInt 1800)]"
  by (simp add: issued_claims_def expires_at_def timegm_def timedelta_minutes_def cfg0_def)

lemma create0: "create_access_token cfg0 0 [(''sub'', ''a@x.com'')] = Inr tok0"
  by (simp add: create_access_token_eq issued0' tok0_def)

lemma tok0_eq:
  "tok0 = Compact ''HS256'' (Json [(''sub'', JStr ''a@x.com''), (''exp'', JInt 1800)])
           (hmac HS256 ''k3y'' ''HS256'' (Json [(''sub'', JStr ''a@x.com''), (''exp'', JInt 1800)]))"
  by (simp add: tok0_def signed_def cfg0_def)

lemma verify_alice: "verify_password secret0 (password alice) = Inr True"
  by (simp add: verify_password_def alice_def secret_ok[OF secret0_ok])

lemma verify_alice_wrong: "verify_password wrong0 (password alice) = Inr False"
  by (simp add: verify_password_def alice_def secret_ok[OF wrong0_ok])
     (simp add: bcrypt_def utf8_def utf8_char_def secret0_def wrong0_def)

section \<open>The claims\<close>

text \<open>
  C1, as amended. A token that resolved to a user and was then revoked for that same
  user by \<^verbatim>\<open>add_access_token_blacklist\<close> never resolves again: at every check time,
  before or after the token's own expiry, \<^verbatim>\<open>get_current_user\<close> raises the expired-token
  exception. It is the very exception raised for a token whose expiry has passed.
\<close>

theorem revoked_token_is_expired:
  assumes "get_current_user cfg db t tok = Inr u"
    and "add_access_token_blacklist sch db tok u = Inr db'"
  shows "get_current_user cfg db' t' tok = Inl TokenExpiredException \<and>
         (\<forall>db2 t2 tok2. jwt_decode t2 tok2 (SECRET_KEY cfg) [ALGORITHM cfg] = Inl ExpiredSignatureError \<longrightarrow>
            get_current_user cfg db2 t2 tok2 = Inl TokenExpiredException)"
proof -
  have x: "\<forall>db2 t2 tok2. jwt_decode t2 tok2 (SECRET_KEY cfg) [ALGORITHM cfg] = Inl ExpiredSignatureError \<longrightarrow>
            get_current_user cfg db2 t2 tok2 = Inl TokenExpiredException"
    by (simp add: get_current_user_expired)
  from assms(1) obtain payload e r where
    d: "jwt_decode t tok (SECRET_KEY cfg) [ALGORITHM cfg] = Inr payload" and
    s: "map_of payload ''sub'' = Some (JStr e)" and
    r: "find (\<lambda>r. email r = e) (User db) = Some r" and
    u: "u = load r (Some (filter (\<lambda>b. userId b = ident r) (JWTBlacklist db)))"
    by (rule get_current_user_InrD)
  from assms(2) u have db': "db' = db\<lparr>JWTBlacklist := JWTBlacklist db @ [\<lparr>token = tok, userId = ident r\<rparr>]\<rparr>"
    by (auto simp: add_access_token_blacklist_def JWTBlacklist_create_def ident_load split: if_splits)
  from jwt_decode_later[OF d, of t']
  have "get_current_user cfg db' t' tok = Inl TokenExpiredException"
  proof
    assume d': "jwt_decode t' tok (SECRET_KEY cfg) [ALGORITHM cfg] = Inr payload"
    from r db' have r': "find (\<lambda>r. email r = e) (User db') = Some r" by simp
    from get_current_user_resolved[OF d' s r'] db' show ?thesis by simp
  next
    assume "jwt_decode t' tok (SECRET_KEY cfg) [ALGORITHM cfg] = Inl ExpiredSignatureError"
    then show ?thesis by (rule get_current_user_expired)
  qed
  with x show ?thesis by simp
qed

theorem revoked_token_is_expired_witness:
  "get_current_user cfg0 db0 1000000 tok0 = Inr (load alice (Some [])) \<and>
   add_access_token_blacklist unique_tokens db0 tok0 (load alice (Some [])) = Inr db1 \<and>
   get_current_user cfg0 db1 2000000 tok0 = Inl TokenExpiredException \<and>
   jwt_decode 1800000000 tok0 (SECRET_KEY cfg0) [ALGORITHM cfg0] = Inl ExpiredSignatureError \<and>
   get_current_user cfg0 db0 1800000000 tok0 = Inl TokenExpiredException"
proof -
  have d: "jwt_decode 1800000000 tok0 (SECRET_KEY cfg0) [ALGORITHM cfg0] = Inl ExpiredSignatureError"
    by (simp add: jwt_decode_tok0)
  from revoked_token_is_expired[OF get_current_user_db0 add_db0, of 2000000] d
  have "get_current_user cfg0 db1 2000000 tok0 = Inl TokenExpiredException"
    and "get_current_user cfg0 db0 1800000000 tok0 = Inl TokenExpiredException"
    by blast+
  with get_current_user_db0 add_db0 d show ?thesis by simp
qed

text \<open>
  C1 as stated fails when the token is revoked for another user: the insert succeeds,
  the blacklist that \<^verbatim>\<open>get_current_user\<close> reads is the one of the token's subject, and
  the token still resolves.
\<close>

theorem revoked_for_other_user_counterexample:
  "add_access_token_blacklist unique_tokens db2 tok0 (load bob (Some [])) = Inr db3 \<and>
   get_current_user cfg0 db3 1000000 tok0 = Inr (load alice (Some []))"
proof -
  have "add_access_token_blacklist unique_tokens db2 tok0 (load bob (Some [])) = Inr db3"
    by (simp add: add_access_token_blacklist_def JWTBlacklist_create_def db2_def db3_def
        alice_def bob_def load_def)
  moreover have "get_current_user cfg0 db3 1000000 tok0 = Inr (load alice (Some []))"
    by (simp add: get_current_user_def jwt_decode_tok0 User_find_first_def db3_def alice_def
        bob_def load_def)
  ultimately show ?thesis by simp
qed

text \<open>
  C2, as amended. \<^verbatim>\<open>jwt.encode\<close> stores the expiry in whole seconds: a token issued at
  time \<open>t0\<close> with a lifetime of \<open>L\<close> minutes carries \<open>t0 + L\<close> rounded down to the second.
  Verification in \<^verbatim>\<open>get_current_user\<close> succeeds at every check time strictly before
  that rounded expiry (and the token is then not reported as expired, unless it is
  blacklisted), and fails with the expired-token exception at every check time at or
  after it. The rounded expiry is at most \<open>t0 + L\<close> and less than one second before it,
  so the token has expired at every check time at or after \<open>t0 + L\<close>.
\<close>

theorem token_expiry_window:
  "\<exists>tok. create_access_token cfg t0 [(''sub'', e)] = Inr tok \<and>
     (\<forall>now. now < expires_at cfg t0 * 1000000 \<longrightarrow>
        jwt_decode now tok (SECRET_KEY cfg) [ALGORITHM cfg] = Inr (issued_claims cfg t0 [(''sub'', e)])) \<and>
     (\<forall>now db. now < expires_at cfg t0 * 1000000 \<and> filter (\<lambda>x. token x = tok) (JWTBlacklist db) = [] \<longrightarrow>
        get_current_user cfg db now tok \<noteq> Inl TokenExpiredException) \<and>
     (\<forall>now db. expires_at cfg t0 * 1000000 \<le> now \<longrightarrow>
        get_current_user cfg db now tok = Inl TokenExpiredException) \<and>
     expires_at cfg t0 * 1000000 \<le> t0 + timedelta_minutes (ACCESS_TOKEN_EXPIRE_MINUTES cfg) \<and>
     t0 + timedelta_minutes (ACCESS_TOKEN_EXPIRE_MINUTES cfg) < expires_at cfg t0 * 1000000 + 1000000"
proof -
  let ?tok = "signed cfg (Json (issued_claims cfg t0 [(''sub'', e)]))"
  have d: "\<And>now. jwt_decode now ?tok (SECRET_KEY cfg) [ALGORITHM cfg] =
     (if expires_at cfg t0 * 1000000 \<le> now then Inl ExpiredSignatureError
      else Inr (issued_claims cfg t0 [(''sub'', e)]))"
    by (rule jwt_decode_issued)
  have a: "\<forall>now. now < expires_at cfg t0 * 1000000 \<longrightarrow>
        jwt_decode now ?tok (SECRET_KEY cfg) [ALGORITHM cfg] = Inr (issued_claims cfg t0 [(''sub'', e)])"
    by (simp add: d)
  have b: "\<forall>now db. now < expires_at cfg t0 * 1000000 \<and> filter (\<lambda>x. token x = ?tok) (JWTBlacklist db) = [] \<longrightarrow>
        get_current_user cfg db now ?tok \<noteq> Inl TokenExpiredException"
  proof (intro allI impI notI)
    fix now db
    assume h: "now < expires_at cfg t0 * 1000000 \<and> filter (\<lambda>x. token x = ?tok) (JWTBlacklist db) = []"
      and x: "get_current_user cfg db now ?tok = Inl TokenExpiredException"
    from get_current_user_TokenExpiredD[OF x] h show False by (simp add: d)
  qed
  have c: "\<forall>now db. expires_at cfg t0 * 1000000 \<le> now \<longrightarrow>
        get_current_user cfg db now ?tok = Inl TokenExpiredException"
    by (simp add: get_current_user_expired d)
  from a b c expires_at_bounds create_access_token_eq[of cfg t0 "[(''sub'', e)]"]
  show ?thesis by blast
qed

theorem token_expiry_window_witness:
  "create_access_token cfg0 500000 [(''sub'', ''a@x.com'')] = Inr tok0 \<and>
   (1799999999::int) < expires_at cfg0 500000 * 1000000 \<and>
   jwt_decode 1799999999 tok0 (SECRET_KEY cfg0) [ALGORITHM cfg0] =
     Inr (issued_claims cfg0 500000 [(''sub'', ''a@x.com'')]) \<and>
   filter (\<lambda>x. token x = tok0) (JWTBlacklist db0) = [] \<and>
   get_current_user cfg0 db0 1799999999 tok0 \<noteq> Inl TokenExpiredException \<and>
   expires_at cfg0 500000 * 1000000 \<le> (1800000000::int) \<and>
   get_current_user cfg0 db0 1800000000 tok0 = Inl TokenExpiredException"
proof -
  have c: "create_access_token cfg0 500000 [(''sub'', ''a@x.com'')] = Inr tok0"
    by (simp add: create_access_token_eq issued0 tok0_def)
  have e: "expires_at cfg0 500000 * 1000000 = 1800000000"
    by (simp add: expires_at_def timegm_def timedelta_minutes_def cfg0_def)
  have b: "filter (\<lambda>x. token x = tok0) (JWTBlacklist db0) = []"
    by (simp add: db0_def)
  from token_expiry_window[of cfg0 500000 "''a@x.com''"] c obtain
    w1: "\<forall>now. now < expires_at cfg0 500000 * 1000000 \<longrightarrow>
        jwt_decode now tok0 (SECRET_KEY cfg0) [ALGORITHM cfg0] = Inr (issued_claims cfg0 500000 [(''sub'', ''a@x.com'')])" and
    w2: "\<forall>now db. now < expires_at cfg0 500000 * 1000000 \<and> filter (\<lambda>x. token x = tok0) (JWTBlacklist db) = [] \<longrightarrow>
        get_current_user cfg0 db now tok0 \<noteq> Inl TokenExpiredException" and
    w3: "\<forall>now db. expires_at cfg0 500000 * 1000000 \<le> now \<longrightarrow>
        get_current_user cfg0 db now tok0 = Inl TokenExpiredException"
    by auto
  from w1 e have "jwt_decode 1799999999 tok0 (SECRET_KEY cfg0) [ALGORITHM cfg0] =
     Inr (issued_claims cfg0 500000 [(''sub'', ''a@x.com'')])" by simp
  moreover from w2 e b have "get_current_user cfg0 db0 1799999999 tok0 \<noteq> Inl TokenExpiredException"
    by simp
  moreover from w3 e have "get_current_user cfg0 db0 1800000000 tok0 = Inl TokenExpiredException"
    by simp
  ultimately show ?thesis using c e b by simp
qed

text \<open>
  C2 as stated fails below one second: a token issued half a second after the epoch
  with a lifetime of 30 minutes is reported as expired at 1800.2 seconds, which is
  strictly before \<open>t0 + L\<close> = 1800.5 seconds.
\<close>

theorem token_expiry_counterexample:
  "create_access_token cfg0 500000 [(''sub'', ''a@x.com'')] = Inr tok0 \<and>
   (1800200000::int) < 500000 + timedelta_minutes (ACCESS_TOKEN_EXPIRE_MINUTES cfg0) \<and>
   get_current_user cfg0 db0 1800200000 tok0 = Inl TokenExpiredException"
proof -
  have "create_access_token cfg0 500000 [(''sub'', ''a@x.com'')] = Inr tok0"
    by (simp add: create_access_token_eq issued0 tok0_def)
  moreover have "(1800200000::int) < 500000 + timedelta_minutes (ACCESS_TOKEN_EXPIRE_MINUTES cfg0)"
    by (simp add: timedelta_minutes_def cfg0_def)
  moreover have "get_current_user cfg0 db0 1800200000 tok0 = Inl TokenExpiredException"
    by (simp add: get_current_user_db0_at)
  ultimately show ?thesis by simp
qed

text \<open>
  C3. Whatever replaces the payload segment of an issued token, \<^verbatim>\<open>jwt.decode\<close> fails
  before it reads the claims: with its signature error, or with its decode error when
  the new segment is not base64. \<^verbatim>\<open>get_current_user\<close> then raises the exception it
  raises for every invalid token, \<^verbatim>\<open>CredentialException\<close>, at every check time (also
  after the original expiry). That exception and the expired-token exception are
  different values.
\<close>

theorem tampered_payload_is_invalid:
  assumes "create_access_token cfg t0 data = Inr (Compact hdr seg sig)"
    and "seg' \<noteq> seg"
  shows "(jwt_decode now (Compact hdr seg' sig) (SECRET_KEY cfg) [ALGORITHM cfg] = Inl InvalidSignatureError \<or>
          jwt_decode now (Compact hdr seg' sig) (SECRET_KEY cfg) [ALGORITHM cfg] = Inl DecodeError) \<and>
         get_current_user cfg db now (Compact hdr seg' sig) = Inl CredentialException \<and>
         get_current_user cfg db now (Compact hdr seg' sig) \<noteq> Inl TokenExpiredException \<and>
         CredentialException \<noteq> TokenExpiredException"
proof -
  let ?d = "jwt_decode now (Compact hdr seg' sig) (SECRET_KEY cfg) [ALGORITHM cfg]"
  from assms(1) have h: "hdr = alg_name (ALGORITHM cfg)"
    and s: "sig = hmac (ALGORITHM cfg) (SECRET_KEY cfg) (alg_name (ALGORITHM cfg)) seg"
    by (auto simp: create_access_token_eq signed_def)
  from jwt_decode_tampered[OF assms(2), of now cfg] h s
  have d: "?d = Inl InvalidSignatureError \<or> ?d = Inl DecodeError"
    by (simp split: segment.splits)
  then have "get_current_user cfg db now (Compact hdr seg' sig) = Inl CredentialException"
    by (auto intro: get_current_user_invalid)
  with d exceptions_distinct show ?thesis by simp
qed

theorem tampered_payload_is_invalid_witness:
  "create_access_token cfg0 0 [(''sub'', ''a@x.com'')] =
     Inr (Compact ''HS256'' (Json [(''sub'', JStr ''a@x.com''), (''exp'', JInt 1800)])
           (hmac HS256 ''k3y'' ''HS256'' (Json [(''sub'', JStr ''a@x.com''), (''exp'', JInt 1800)]))) \<and>
   Json [(''sub'', JStr ''a@x.com''), (''exp'', JInt 9999999999)] \<noteq>
     Json [(''sub'', JStr ''a@x.com''), (''exp'', JInt 1800)] \<and>
   jwt_decode 1800000000 tok0_forged (SECRET_KEY cfg0) [ALGORITHM cfg0] = Inl InvalidSignatureError \<and>
   get_current_user cfg0 db0 1800000000 tok0_forged = Inl CredentialException"
proof -
  have c: "create_access_token cfg0 0 [(''sub'', ''a@x.com'')] =
     Inr (Compact ''HS256'' (Json [(''sub'', JStr ''a@x.com''), (''exp'', JInt 1800)])
           (hmac HS256 ''k3y'' ''HS256'' (Json [(''sub'', JStr ''a@x.com''), (''exp'', JInt 1800)])))"
    by (simp add: create_access_token_eq issued0' signed_def) (simp add: cfg0_def)
  have n: "Json [(''sub'', JStr ''a@x.com''), (''exp'', JInt 9999999999)] \<noteq>
     Json [(''sub'', JStr ''a@x.com''), (''exp'', JInt 1800)]"
    by simp
  have d: "jwt_decode 1800000000 tok0_forged (SECRET_KEY cfg0) [ALGORITHM cfg0] = Inl InvalidSignatureError"
    by (simp add: tok0_forged_def jwt_decode_def cfg0_def hmac_def)
  from tampered_payload_is_invalid[OF c n, of 1800000000 db0]
  have "get_current_user cfg0 db0 1800000000 tok0_forged = Inl CredentialException"
    by (simp add: tok0_forged_def)
  with c n d show ?thesis by simp
qed

text \<open>
  C4. \<^verbatim>\<open>login_for_access_token\<close> is to raise one and the same exception when no user
  has the email and when the user exists and the password does not verify. It does not
  for a password that passlib refuses: \<^verbatim>\<open>verify_password\<close> lets passlib's exception
  pass, so for the password that is one NUL character an existing user gets passlib's
  error and a missing user gets \<^verbatim>\<open>CredentialException\<close>.
\<close>

theorem login_refused_password_reveals_user:
  "login_for_access_token cfg0 db0 0 ''a@x.com'' nul0 = Inl PasswordValueError \<and>
   login_for_access_token cfg0 db0 0 ''b@x.com'' nul0 = Inl CredentialException \<and>
   PasswordValueError \<noteq> CredentialException"
proof -
  have f1: "find (\<lambda>r. email r = ''a@x.com'') (User db0) = Some alice"
    by (simp add: db0_def alice_def)
  have f2: "find (\<lambda>r. email r = ''b@x.com'') (User db0) = None"
    by (simp add: db0_def alice_def)
  have v: "verify_password nul0 (password alice) = Inl PasswordValueError"
    by (simp add: verify_password_def alice_def nul0_def validate_secret_def MAX_PASSWORD_SIZE_def
        calc_checksum_def encode_utf8_def is_surrogate_def utf8_def utf8_char_def)
  have "login_for_access_token cfg0 db0 0 ''a@x.com'' nul0 = Inl PasswordValueError"
    by (simp add: login_for_access_token_def authenticate_user_Some[OF f1] v)
  moreover have "login_for_access_token cfg0 db0 0 ''b@x.com'' nul0 = Inl CredentialException"
    by (simp add: login_for_access_token_def authenticate_user_None[OF f2])
  ultimately show ?thesis by (simp add: CredentialException_def)
qed

text \<open>
  C5. For a stored user whose hash verifies the supplied password,
  \<^verbatim>\<open>login_for_access_token\<close> returns a token (a three-segment string, hence not empty)
  with token type \<^verbatim>\<open>bearer\<close>; the token's subject claim is the user's email, and
  before the expiry \<^verbatim>\<open>get_current_user\<close> returns that user's record, with the
  blacklist relation loaded, provided the token is not blacklisted for the user.
\<close>

theorem login_then_resolve:
  assumes "find (\<lambda>r. email r = e) (User db) = Some r"
    and "verify_password pw (password r) = Inr True"
  shows "\<exists>tok. login_for_access_token cfg db t0 e pw = Inr \<lparr>access_token = tok, token_type = ''bearer''\<rparr> \<and>
     (\<exists>hdr seg sig. tok = Compact hdr seg sig) \<and>
     (\<forall>now. now < expires_at cfg t0 * 1000000 \<longrightarrow>
        (\<exists>payload. jwt_decode now tok (SECRET_KEY cfg) [ALGORITHM cfg] = Inr payload \<and>
                   map_of payload ''sub'' = Some (JStr (email r)))) \<and>
     (\<forall>now. now < expires_at cfg t0 * 1000000 \<and>
            filter (\<lambda>b. userId b = ident r \<and> token b = tok) (JWTBlacklist db) = [] \<longrightarrow>
        get_current_user cfg db now tok =
          Inr (load r (Some (filter (\<lambda>b. userId b = ident r) (JWTBlacklist db)))))"
proof -
  let ?cl = "issued_claims cfg t0 [(''sub'', email r)]"
  let ?tok = "signed cfg (Json ?cl)"
  from assms(1) have er: "email r = e" by (auto simp: find_Some_iff)
  have l: "login_for_access_token cfg db t0 e pw = Inr \<lparr>access_token = ?tok, token_type = ''bearer''\<rparr>"
    using assms
    by (simp add: login_for_access_token_def authenticate_user_Some create_access_token_eq load_def)
  have s: "\<exists>hdr seg sig. ?tok = Compact hdr seg sig" by (simp add: signed_def)
  have d: "\<And>now. now < expires_at cfg t0 * 1000000 \<Longrightarrow>
     jwt_decode now ?tok (SECRET_KEY cfg) [ALGORITHM cfg] = Inr ?cl"
    by (simp add: jwt_decode_issued)
  have m: "map_of ?cl ''sub'' = Some (JStr (email r))" by (rule map_of_issued_sub)
  have g: "\<forall>now. now < expires_at cfg t0 * 1000000 \<and>
            filter (\<lambda>b. userId b = ident r \<and> token b = ?tok) (JWTBlacklist db) = [] \<longrightarrow>
        get_current_user cfg db now ?tok =
          Inr (load r (Some (filter (\<lambda>b. userId b = ident r) (JWTBlacklist db))))"
  proof (intro allI impI)
    fix now
    assume h: "now < expires_at cfg t0 * 1000000 \<and>
            filter (\<lambda>b. userId b = ident r \<and> token b = ?tok) (JWTBlacklist db) = []"
    from assms(1) er have f: "find (\<lambda>x. email x = email r) (User db) = Some r" by simp
    from h get_current_user_resolved[OF d m f, of now] show "get_current_user cfg db now ?tok =
          Inr (load r (Some (filter (\<lambda>b. userId b = ident r) (JWTBlacklist db))))"
      by simp
  qed
  from l s d m g show ?thesis by blast
qed

theorem login_then_resolve_witness:
  "find (\<lambda>r. email r = ''a@x.com'') (User db0) = Some alice \<and>
   verify_password secret0 (password alice) = Inr True \<and>
   login_for_access_token cfg0 db0 0 ''a@x.com'' secret0 = Inr \<lparr>access_token = tok0, token_type = ''bearer''\<rparr> \<and>
   (1000000::int) < expires_at cfg0 0 * 1000000 \<and>
   filter (\<lambda>b. userId b = ident alice \<and> token b = tok0) (JWTBlacklist db0) = [] \<and>
   get_current_user cfg0 db0 1000000 tok0 = Inr (load alice (Some []))"
proof -
  have f: "find (\<lambda>r. email r = ''a@x.com'') (User db0) = Some alice"
    by (simp add: db0_def alice_def)
  have l0: "login_for_access_token cfg0 db0 0 ''a@x.com'' secret0 = Inr \<lparr>access_token = tok0, token_type = ''bearer''\<rparr>"
    using f verify_alice
    by (simp add: login_for_access_token_def authenticate_user_Some load_def)
       (simp add: alice_def create0)
  have e: "(1000000::int) < expires_at cfg0 0 * 1000000"
    by (simp add: expires_at_def timegm_def timedelta_minutes_def cfg0_def)
  have b: "filter (\<lambda>b. userId b = ident alice \<and> token b = tok0) (JWTBlacklist db0) = []"
    by (simp add: db0_def)
  from login_then_resolve[OF f verify_alice, of cfg0 0] obtain tok where
    l: "login_for_access_token cfg0 db0 0 ''a@x.com'' secret0 = Inr \<lparr>access_token = tok, token_type = ''bearer''\<rparr>" and
    g: "\<forall>now. now < expires_at cfg0 0 * 1000000 \<and>
            filter (\<lambda>b. userId b = ident alice \<and> token b = tok) (JWTBlacklist db0) = [] \<longrightarrow>
        get_current_user cfg0 db0 now tok =
          Inr (load alice (Some (filter (\<lambda>b. userId b = ident alice) (JWTBlacklist db0))))"
    by blast
  from l l0 have t: "tok = tok0" by simp
  from g t e b have "get_current_user cfg0 db0 1000000 tok0 =
          Inr (load alice (Some (filter (\<lambda>b. userId b = ident alice) (JWTBlacklist db0))))"
    by blast
  then have "get_current_user cfg0 db0 1000000 tok0 = Inr (load alice (Some []))"
    by (simp add: db0_def)
  with f verify_alice l0 e b show ?thesis by simp
qed

text \<open>
  C6, as amended. A token produced by \<^verbatim>\<open>create_access_token\<close> carries the HMAC, under
  the configured secret, of its header and payload. The payload holds exactly the
  fields of \<open>data\<close> and \<^verbatim>\<open>exp\<close>, for a login exactly \<^verbatim>\<open>sub\<close> and \<^verbatim>\<open>exp\<close>: no issued-at
  field is written. The signature covers every claim field: with any other JSON payload
  under the same signature, verification fails with the signature error, and under the
  configured key the untouched token passes the signature check.
\<close>

theorem issued_token_payload_and_signature:
  "\<exists>cl sig. create_access_token cfg t0 data = Inr (Compact (alg_name (ALGORITHM cfg)) (Json cl) sig) \<and>
     sig = hmac (ALGORITHM cfg) (SECRET_KEY cfg) (alg_name (ALGORITHM cfg)) (Json cl) \<and>
     set (claim_names (Compact (alg_name (ALGORITHM cfg)) (Json cl) sig)) = insert ''exp'' (fst ` set data) \<and>
     (data = [(''sub'', e)] \<longrightarrow>
        claim_names (Compact (alg_name (ALGORITHM cfg)) (Json cl) sig) = [''sub'', ''exp'']) \<and>
     map_of cl ''exp'' = Some (JInt (expires_at cfg t0)) \<and>
     (\<forall>now cl'. cl' \<noteq> cl \<longrightarrow>
        jwt_decode now (Compact (alg_name (ALGORITHM cfg)) (Json cl') sig) (SECRET_KEY cfg) [ALGORITHM cfg]
          = Inl InvalidSignatureError) \<and>
     (\<forall>now. jwt_decode now (Compact (alg_name (ALGORITHM cfg)) (Json cl) sig) (SECRET_KEY cfg) [ALGORITHM cfg]
          \<noteq> Inl InvalidSignatureError)"
proof -
  let ?cl = "issued_claims cfg t0 data"
  let ?sig = "hmac (ALGORITHM cfg) (SECRET_KEY cfg) (alg_name (ALGORITHM cfg)) (Json ?cl)"
  let ?tok = "Compact (alg_name (ALGORITHM cfg)) (Json ?cl) ?sig"
  have t: "?tok = signed cfg (Json ?cl)" by (simp add: signed_def)
  have 1: "create_access_token cfg t0 data = Inr ?tok"
    by (simp add: create_access_token_eq signed_def)
  have 2: "set (claim_names ?tok) = insert ''exp'' (fst ` set data)"
    unfolding t claim_names_signed by (rule keys_issued)
  have 3: "data = [(''sub'', e)] \<longrightarrow> claim_names ?tok = [''sub'', ''exp'']"
    unfolding t claim_names_signed by (simp add: issued_claims_def)
  have 4: "map_of ?cl ''exp'' = Some (JInt (expires_at cfg t0))"
    by (rule map_of_issued_exp)
  have 5: "\<forall>now cl'. cl' \<noteq> ?cl \<longrightarrow>
        jwt_decode now (Compact (alg_name (ALGORITHM cfg)) (Json cl') ?sig) (SECRET_KEY cfg) [ALGORITHM cfg]
          = Inl InvalidSignatureError"
    by (simp add: jwt_decode_tampered)
  have 6: "\<forall>now. jwt_decode now ?tok (SECRET_KEY cfg) [ALGORITHM cfg] \<noteq> Inl InvalidSignatureError"
    unfolding t by (simp add: jwt_decode_issued)
  from 1 2 3 4 5 6 show ?thesis by blast
qed

theorem issued_token_payload_and_signature_witness:
  "create_access_token cfg0 0 [(''sub'', ''a@x.com'')] = Inr tok0 \<and>
   claim_names tok0 = [''sub'', ''exp''] \<and>
   [(''sub'', JStr ''a@x.com''), (''exp'', JInt 9999999999)] \<noteq>
     [(''sub'', JStr ''a@x.com''), (''exp'', JInt 1800)] \<and>
   jwt_decode 0 tok0_forged (SECRET_KEY cfg0) [ALGORITHM cfg0] = Inl InvalidSignatureError \<and>
   jwt_decode 0 tok0 (SECRET_KEY cfg0) [ALGORITHM cfg0] \<noteq> Inl InvalidSignatureError"
proof -
  from issued_token_payload_and_signature[of cfg0 0 "[(''sub'', ''a@x.com'')]" "''a@x.com''"]
  obtain cl sig where
    c: "create_access_token cfg0 0 [(''sub'', ''a@x.com'')] = Inr (Compact (alg_name (ALGORITHM cfg0)) (Json cl) sig)" and
    n: "claim_names (Compact (alg_name (ALGORITHM cfg0)) (Json cl) sig) = [''sub'', ''exp'']" and
    t: "\<forall>now cl'. cl' \<noteq> cl \<longrightarrow>
        jwt_decode now (Compact (alg_name (ALGORITHM cfg0)) (Json cl') sig) (SECRET_KEY cfg0) [ALGORITHM cfg0]
          = Inl InvalidSignatureError" and
    k: "\<forall>now. jwt_decode now (Compact (alg_name (ALGORITHM cfg0)) (Json cl) sig) (SECRET_KEY cfg0) [ALGORITHM cfg0]
          \<noteq> Inl InvalidSignatureError"
    by auto
  from c create0 have e: "Compact (alg_name (ALGORITHM cfg0)) (Json cl) sig = tok0" by simp
  then have cl: "cl = [(''sub'', JStr ''a@x.com''), (''exp'', JInt 1800)]"
    and sig: "sig = hmac HS256 ''k3y'' ''HS256'' (Json [(''sub'', JStr ''a@x.com''), (''exp'', JInt 1800)])"
    and a: "alg_name (ALGORITHM cfg0) = ''HS256''"
    by (simp_all add: tok0_eq)
  from n e have 1: "claim_names tok0 = [''sub'', ''exp'']" by simp
  from t cl sig a have 2: "jwt_decode 0 tok0_forged (SECRET_KEY cfg0) [ALGORITHM cfg0] = Inl InvalidSignatureError"
    by (simp add: tok0_forged_def)
  from k e have 3: "jwt_decode 0 tok0 (SECRET_KEY cfg0) [ALGORITHM cfg0] \<noteq> Inl InvalidSignatureError"
    by simp
  from create0 1 2 3 show ?thesis by simp
qed

text \<open>
  C6 as stated fails: the payload of the token issued at a login has the two fields
  \<^verbatim>\<open>sub\<close> and \<^verbatim>\<open>exp\<close>, and no \<^verbatim>\<open>iat\<close>.
\<close>

theorem issued_token_payload_counterexample:
  "create_access_token cfg0 0 [(''sub'', ''a@x.com'')] = Inr tok0 \<and>
   claim_names tok0 = [''sub'', ''exp''] \<and>
   ''iat'' \<notin> set (claim_names tok0)"
  by (simp add: create0) (simp add: tok0_eq claim_names_def)

text \<open>
  C7, as amended. For every password that has no NUL character and no lone surrogate
  and whose UTF-8 encoding has at most 4096 bytes, and for every salt,
  \<^verbatim>\<open>generate_password_hash\<close> returns a hash and \<^verbatim>\<open>verify_password\<close> of the password
  against that hash returns true. For every other password \<^verbatim>\<open>generate_password_hash\<close>
  raises.
\<close>

theorem hash_then_verify:
  "(\<not> list_ex is_surrogate p \<and> length (utf8 p) \<le> 4096 \<and> 0 \<notin> set p \<longrightarrow>
      (\<exists>h. generate_password_hash salt p = Inr h \<and> verify_password p h = Inr True)) \<and>
   (\<not> (\<not> list_ex is_surrogate p \<and> length (utf8 p) \<le> 4096 \<and> 0 \<notin> set p) \<longrightarrow>
      (\<exists>e. generate_password_hash salt p = Inl e))"
proof (intro conjI impI)
  assume a: "\<not> list_ex is_surrogate p \<and> length (utf8 p) \<le> 4096 \<and> 0 \<notin> set p"
  then have "validate_secret p = None"
    and "\<And>variant rounds salt. calc_checksum variant rounds salt p = Inr (bcrypt variant rounds salt (utf8 p))"
    by (simp_all add: secret_ok)
  then show "\<exists>h. generate_password_hash salt p = Inr h \<and> verify_password p h = Inr True"
    by (simp add: generate_password_hash_def verify_password_def PWD_hash_def)
next
  assume "\<not> (\<not> list_ex is_surrogate p \<and> length (utf8 p) \<le> 4096 \<and> 0 \<notin> set p)"
  then show "\<exists>e. generate_password_hash salt p = Inl e"
    unfolding generate_password_hash_def by (rule PWD_hash_refused)
qed

theorem hash_then_verify_witness:
  "\<not> list_ex is_surrogate secret0 \<and> length (utf8 secret0) \<le> 4096 \<and> 0 \<notin> set secret0 \<and>
   generate_password_hash ''salt'' secret0 = Inr (password alice) \<and>
   verify_password secret0 (password alice) = Inr True \<and>
   0 \<in> set nul0 \<and>
   (\<exists>e. generate_password_hash ''salt'' nul0 = Inl e)"
proof -
  have g: "generate_password_hash ''salt'' secret0 = Inr (password alice)"
    by (simp add: generate_password_hash_def PWD_hash_def secret_ok[OF secret0_ok] alice_def)
  have z: "0 \<in> set nul0" by (simp add: nul0_def)
  from hash_then_verify[of secret0 "''salt''"] secret0_ok g
  have "verify_password secret0 (password alice) = Inr True" by simp
  moreover from hash_then_verify[of nul0 "''salt''"] z
  have "\<exists>e. generate_password_hash ''salt'' nul0 = Inl e" by simp
  ultimately show ?thesis using secret0_ok g z by simp
qed

text \<open>
  C7 as stated fails for a password with a NUL character: passlib's bcrypt handler
  refuses it, and \<^verbatim>\<open>generate_password_hash\<close> raises instead of returning a hash.
\<close>

theorem hash_then_verify_counterexample:
  "generate_password_hash ''salt'' nul0 = Inl PasswordValueError"
  by (simp add: generate_password_hash_def PWD_hash_def validate_secret_def calc_checksum_def
      encode_utf8_def is_surrogate_def utf8_def utf8_char_def MAX_PASSWORD_SIZE_def nul0_def)

text \<open>
  C8. \<^verbatim>\<open>verify_password\<close> is to return false on a malformed hash string. It does not:
  it hands the hash to passlib and catches nothing, and on a string that passlib does
  not identify as a hash it raises \<^verbatim>\<open>UnknownHashError\<close>.
\<close>

theorem verify_password_raises_on_unknown_hash:
  "verify_password secret0 (Unidentified ''not-a-hash'') = Inl UnknownHashError \<and>
   verify_password secret0 (Unidentified ''not-a-hash'') \<noteq> Inr False"
  by (simp add: verify_password_def)




text \<open>
  C10. For a token whose signature verifies and whose expiry has not passed, and whose
  payload has no \<^verbatim>\<open>sub\<close> claim, \<^verbatim>\<open>get_current_user\<close> raises the invalid-credentials
  exception, not the expired-token exception.
\<close>

theorem missing_subject_is_credential_error:
  assumes "jwt_decode now tok (SECRET_KEY cfg) [ALGORITHM cfg] = Inr payload"
    and "map_of payload ''sub'' = None"
  shows "get_current_user cfg db now tok = Inl CredentialException \<and>
         get_current_user cfg db now tok \<noteq> Inl TokenExpiredException"
  using assms exceptions_distinct by (simp add: get_current_user_def)

theorem missing_subject_is_credential_error_witness:
  "jwt_decode 1000000 tok_nosub (SECRET_KEY cfg0) [ALGORITHM cfg0] = Inr [(''exp'', JInt 1800)] \<and>
   map_of [(''exp'', JInt 1800)] ''sub'' = None \<and>
   get_current_user cfg0 db0 1000000 tok_nosub = Inl CredentialException"
proof -
  have d: "jwt_decode 1000000 tok_nosub (SECRET_KEY cfg0) [ALGORITHM cfg0] = Inr [(''exp'', JInt 1800)]"
    by (simp add: tok_nosub_def jwt_decode_signed validate_claims_def)
  have m: "map_of [(''exp'', JInt 1800)] ''sub'' = None" by simp
  from missing_subject_is_credential_error[OF d m, of db0] d m show ?thesis by simp
qed

end
